theory Spec2Isabelle
  imports Main
begin

section \<open>Parse trees\<close>

text \<open>
  The pass of \<^verbatim>\<open>src/codegeneration/GeneratorTransformPass.js\<close> works on immutable parse
  tree objects. Two objects are compared with \<^verbatim>\<open>===\<close> (object identity), so every node
  of the model carries the address it was allocated at (\<open>ref\<close>): \<^verbatim>\<open>a === b\<close> is
  \<open>ref a = ref b\<close>, and \<^verbatim>\<open>new\<close> takes the next free address of the store. The second
  field of every node is its \<^verbatim>\<open>location\<close> (the first constructor argument of every parse
  tree class, \<^verbatim>\<open>null\<close> for synthesized nodes).
\<close>

type_synonym ref = nat

datatype SourceRange = SourceRange nat nat

datatype TokenType = EQUAL | PLUS_EQUAL | VAR | LET | CONST

text \<open>
  The node kinds the pass reads or builds, field by field as the source names them
  (\<^verbatim>\<open>tree.expression\<close>, \<^verbatim>\<open>ex[0].left\<close>, \<^verbatim>\<open>tree.declarations.declarationType\<close>,
  \<^verbatim>\<open>tree.functionBody\<close>, ...). A nullable field is an \<open>option\<close>. The name, parameter and
  annotation subtrees of functions and accessors are only ever copied by the pass and are
  kept as opaque values. \<open>OtherTree\<close> stands for every node kind the pass never looks at.
\<close>

datatype tree =
    ExpressionStatement (ref: ref) (location: "SourceRange option") (expression: tree)
  | ParenExpression (ref: ref) (location: "SourceRange option") (expression: tree)
  | CommaExpression (ref: ref) (location: "SourceRange option") (expressions: "tree list")
  | BinaryOperator (ref: ref) (location: "SourceRange option")
      (left: tree) (operator: TokenType) (right: tree)
  | YieldExpression (ref: ref) (location: "SourceRange option")
      (yieldOperand: "tree option") (isYieldFor: bool)
  | VariableStatement (ref: ref) (location: "SourceRange option") (declarations: tree)
  | VariableDeclarationList (ref: ref) (location: "SourceRange option")
      (declarationType: TokenType) (declarators: "tree list")
  | VariableDeclaration (ref: ref) (location: "SourceRange option")
      (lvalue: tree) (initialiser: "tree option")
  | ReturnStatement (ref: ref) (location: "SourceRange option") (returnExpression: "tree option")
  | Block (ref: ref) (location: "SourceRange option") (statements: "tree list")
  | MemberExpression (ref: ref) (location: "SourceRange option")
      (operand: tree) (memberName: string)
  | IdentifierExpression (ref: ref) (location: "SourceRange option") (identifierToken: string)
  | FunctionBody (ref: ref) (location: "SourceRange option") (statements: "tree list")
  | FunctionDeclaration (ref: ref) (location: "SourceRange option")
      (name: "string option") (isGenerator: bool) (formalParameterList: "string list")
      (typeAnnotation: "string option") (annotations: "string list") (functionBody: tree)
  | FunctionExpression (ref: ref) (location: "SourceRange option")
      (name: "string option") (isGenerator: bool) (formalParameterList: "string list")
      (typeAnnotation: "string option") (annotations: "string list") (functionBody: tree)
  | GetAccessor (ref: ref) (location: "SourceRange option")
      (isStatic: bool) (name: "string option")
      (typeAnnotation: "string option") (annotations: "string list") (body: tree)
  | SetAccessor (ref: ref) (location: "SourceRange option")
      (isStatic: bool) (name: "string option")
      (parameter: string) (annotations: "string list") (body: tree)
  | OtherTree (ref: ref) (location: "SourceRange option") (kind: string) (subtrees: "tree list")


section \<open>The store, errors and collaborator calls\<close>

text \<open>
  The mutable state the pass threads through: the next free object address, the shared
  fresh-identifier counter (\<^verbatim>\<open>this.identifierGenerator\<close>), the diagnostics sent to
  \<^verbatim>\<open>this.reporter_\<close>, and a log of the external collaborators the driver has called
  (kept to state which sub-passes were applied to a body).
\<close>

datatype collaborator =
    ForInTransformPass | YieldExpressionTransformer | GeneratorTransformer | AsyncTransformer

record world =
  nextRef :: ref
  identifierGenerator :: nat
  reporter :: "string list"
  calls :: "collaborator list"

text \<open>
  Reading a property of \<^verbatim>\<open>undefined\<close> or \<^verbatim>\<open>null\<close> throws a \<^verbatim>\<open>TypeError\<close>; a
  collaborator may throw an error of its own. An exception leaves the state as it was
  when it was thrown.
\<close>

datatype error = TypeError | CollaboratorError string

type_synonym 'a result = "(error + 'a) \<times> world"

definition ok :: "'a \<times> world \<Rightarrow> 'a result" where
  "ok p = (Inr (fst p), snd p)"

definition newNode :: "(ref \<Rightarrow> tree) \<Rightarrow> world \<Rightarrow> tree \<times> world" where
  \<comment> \<open>\<^verbatim>\<open>new C(...)\<close>: the object gets the next free address.\<close>
  "newNode mk w = (mk (nextRef w), w\<lparr>nextRef := Suc (nextRef w)\<rparr>)"

section \<open>Tree construction helpers\<close>

text \<open>
  Modelled from the spec: the helpers of \<^verbatim>\<open>ParseTreeFactory\<close> imported by the pass are not
  part of the source file. The spec lists them as tree-node construction helpers and gives
  the shapes they build (\<open>block { expr-stmt(S); return(resumed-slot) }\<close>,
  \<open>comma(assign(L, resumed-slot), REST...)\<close>, \<open>variable-statement(decl(L, resumed-slot),
  REST...)\<close>); each allocates one node of the named kind with no source location.
  \<^verbatim>\<open>createMemberExpression('$ctx', 'sent')\<close> builds the member access on the identifier
  expression of its first argument.
\<close>

definition createExpressionStatement :: "tree \<Rightarrow> world \<Rightarrow> tree \<times> world" where
  "createExpressionStatement e = newNode (\<lambda>r. ExpressionStatement r None e)"

definition createCommaExpression :: "tree list \<Rightarrow> world \<Rightarrow> tree \<times> world" where
  "createCommaExpression es = newNode (\<lambda>r. CommaExpression r None es)"

definition createAssignmentExpression :: "tree \<Rightarrow> tree \<Rightarrow> world \<Rightarrow> tree \<times> world" where
  "createAssignmentExpression lhs rhs = newNode (\<lambda>r. BinaryOperator r None lhs EQUAL rhs)"

definition createAssignmentStatement :: "tree \<Rightarrow> tree \<Rightarrow> world \<Rightarrow> tree \<times> world" where
  \<comment> \<open>imported by the pass and never called: the statement \<open>lhs = rhs;\<close>\<close>
  "createAssignmentStatement lhs rhs w =
     (let (a, w1) = createAssignmentExpression lhs rhs w
      in createExpressionStatement a w1)"

definition createBlock :: "tree list \<Rightarrow> world \<Rightarrow> tree \<times> world" where
  "createBlock ss = newNode (\<lambda>r. Block r None ss)"

definition createReturnStatement :: "tree \<Rightarrow> world \<Rightarrow> tree \<times> world" where
  "createReturnStatement e = newNode (\<lambda>r. ReturnStatement r None (Some e))"

definition createIdentifierExpression :: "string \<Rightarrow> world \<Rightarrow> tree \<times> world" where
  "createIdentifierExpression s = newNode (\<lambda>r. IdentifierExpression r None s)"

definition createMemberExpression :: "string \<Rightarrow> string \<Rightarrow> world \<Rightarrow> tree \<times> world" where
  "createMemberExpression obj member w =
     (let (operand, w1) = createIdentifierExpression obj w
      in newNode (\<lambda>r. MemberExpression r None operand member) w1)"

definition createVariableDeclaration :: "tree \<Rightarrow> tree \<Rightarrow> world \<Rightarrow> tree \<times> world" where
  "createVariableDeclaration lhs rhs = newNode (\<lambda>r. VariableDeclaration r None lhs (Some rhs))"

definition createVariableDeclarationList ::
    "TokenType \<Rightarrow> tree list \<Rightarrow> world \<Rightarrow> tree \<times> world" where
  "createVariableDeclarationList declType ds =
     newNode (\<lambda>r. VariableDeclarationList r None declType ds)"

definition createVariableStatement :: "tree \<Rightarrow> world \<Rightarrow> tree \<times> world" where
  "createVariableStatement decls = newNode (\<lambda>r. VariableStatement r None decls)"

section \<open>YieldExpressionTransformer\<close>

text \<open>
  Property reads that several node kinds answer: \<^verbatim>\<open>tree.expression\<close> and
  \<^verbatim>\<open>tree.initialiser\<close>, \<open>None\<close> when the value is \<^verbatim>\<open>null\<close> or the property is absent.
\<close>

fun expression_of :: "tree \<Rightarrow> tree option" where
  "expression_of (ExpressionStatement r l e) = Some e"
| "expression_of (ParenExpression r l e) = Some e"
| "expression_of (ReturnStatement r l e) = e"
| "expression_of (YieldExpression r l e f) = e"
| "expression_of t = None"

fun initialiser_of :: "tree \<Rightarrow> tree option" where
  "initialiser_of (VariableDeclaration r l lv i) = i"
| "initialiser_of t = None"

fun isYieldExpression :: "tree \<Rightarrow> bool" where
  \<comment> \<open>\<^verbatim>\<open>tree.type === YIELD_EXPRESSION\<close>\<close>
  "isYieldExpression (YieldExpression r l e f) = True"
| "isYieldExpression t = False"

fun isBinaryOperator :: "tree \<Rightarrow> bool" where
  \<comment> \<open>\<^verbatim>\<open>tree.type === BINARY_OPERATOR\<close>\<close>
  "isBinaryOperator (BinaryOperator r l a op b) = True"
| "isBinaryOperator t = False"

text \<open>
  Modelled from the spec: \<^verbatim>\<open>isYieldAssign\<close> is imported from
  \<^verbatim>\<open>./generator/isYieldAssign\<close>, which is not part of the source file. The spec describes
  the shape it accepts as an assignment \<open>L = S\<close> of a suspend expression \<open>S\<close> to a target
  \<open>L\<close>: a binary operator node whose operator is \<^verbatim>\<open>=\<close> and whose right operand is a
  suspend expression.
\<close>

fun isYieldAssign :: "tree \<Rightarrow> bool" where
  "isYieldAssign (BinaryOperator r l a op b) = (op = EQUAL \<and> isYieldExpression b)"
| "isYieldAssign t = False"

text \<open>The loop \<^verbatim>\<open>while (e.type === PAREN_EXPRESSION) e = e.expression;\<close>\<close>

fun stripParens :: "tree \<Rightarrow> tree" where
  "stripParens (ParenExpression r l e) = stripParens e"
| "stripParens e = e"

definition factor_' ::
    "tree \<Rightarrow> (tree \<Rightarrow> world \<Rightarrow> tree \<times> world) \<Rightarrow> world \<Rightarrow> tree \<times> world" where
  "factor_' expr wrap w =
     (let (s1, w1) = createExpressionStatement expr w;
          (sent, w2) = createMemberExpression ''$ctx'' ''sent'' w1;
          (s2, w3) = wrap sent w2
      in createBlock [s1, s2] w3)"

definition factorAssign_' ::
    "tree \<Rightarrow> tree \<Rightarrow> (tree \<Rightarrow> tree \<Rightarrow> world \<Rightarrow> tree \<times> world) \<Rightarrow> world \<Rightarrow> tree \<times> world" where
  "factorAssign_' lhs rhs wrap = factor_' rhs (\<lambda>ident. wrap lhs ident)"

definition commaWrap :: "tree list \<Rightarrow> tree \<Rightarrow> tree \<Rightarrow> world \<Rightarrow> tree \<times> world" where
  \<comment> \<open>the local function of \<^verbatim>\<open>transformExpressionStatement\<close>, closed over \<^verbatim>\<open>ex\<close>\<close>
  "commaWrap ex lhs rhs w =
     (let (a, w1) = createAssignmentExpression lhs rhs w;
          (c, w2) = createCommaExpression (a # drop 1 ex) w1
      in createExpressionStatement c w2)"

definition transformExpressionStatement :: "tree \<Rightarrow> world \<Rightarrow> tree result" where
  "transformExpressionStatement tree w =
     (case expression_of tree of
        None \<Rightarrow> (Inl TypeError, w)
      | Some e0 \<Rightarrow>
          (case stripParens e0 of
             CommaExpression r l ex \<Rightarrow>
               (case ex of
                  [] \<Rightarrow> (Inl TypeError, w)
                | ex0 # rest \<Rightarrow>
                    if isBinaryOperator ex0 \<and> isYieldAssign ex0
                    then ok (factorAssign_' (left ex0) (right ex0) (commaWrap ex) w)
                    else (Inr tree, w))
           | _ \<Rightarrow> (Inr tree, w)))"

definition isYieldVarAssign :: "tree \<Rightarrow> bool" where
  \<comment> \<open>the local function of \<^verbatim>\<open>transformVariableStatement\<close>\<close>
  "isYieldVarAssign tree =
     (case initialiser_of tree of None \<Rightarrow> False | Some i \<Rightarrow> isYieldExpression i)"

definition varWrap :: "TokenType \<Rightarrow> tree list \<Rightarrow> tree \<Rightarrow> tree \<Rightarrow> world \<Rightarrow> tree \<times> world" where
  \<comment> \<open>the local function of \<^verbatim>\<open>transformVariableStatement\<close>, closed over
      \<^verbatim>\<open>tree.declarations.declarationType\<close> and \<^verbatim>\<open>tdd\<close>\<close>
  "varWrap declType tdd lhs rhs w =
     (let (d, w1) = createVariableDeclaration lhs rhs w;
          (ds, w2) = createVariableDeclarationList declType (d # drop 1 tdd) w1
      in createVariableStatement ds w2)"

definition transformVariableStatement :: "tree \<Rightarrow> world \<Rightarrow> tree result" where
  "transformVariableStatement tree w =
     (case tree of
        VariableStatement r l (VariableDeclarationList r' l' declType tdd) \<Rightarrow>
          (case tdd of
             [] \<Rightarrow> (Inl TypeError, w)
           | d0 # rest \<Rightarrow>
               if isYieldVarAssign d0
               then ok (factorAssign_' (lvalue d0) (the (initialiser_of d0)) (varWrap declType tdd) w)
               else (Inr tree, w))
      | _ \<Rightarrow> (Inl TypeError, w))"

definition transformReturnStatement :: "tree \<Rightarrow> world \<Rightarrow> tree result" where
  "transformReturnStatement tree w =
     (case expression_of tree of
        None \<Rightarrow> (Inr tree, w)
      | Some e \<Rightarrow>
          if isYieldExpression e then ok (factor_' e createReturnStatement w)
          else (Inr tree, w))"


section \<open>GeneratorTransformPass\<close>

text \<open>
  What the driver consumes from outside the file: the two switches of
  \<^verbatim>\<open>transformOptions\<close>, the analyzer \<^verbatim>\<open>new YieldFinder(tree)\<close> with its three flags, and
  the four sub-passes it hands a body to. They are parameters of the model; a sub-pass
  takes a tree and the state and returns a tree or throws.
\<close>

record YieldFinder =
  hasYield :: bool
  hasAwait :: bool
  hasForIn :: bool

record env =
  generators :: bool
  deferredFunctions :: bool
  newYieldFinder :: "tree \<Rightarrow> YieldFinder"
  forInTransformAny :: "tree \<Rightarrow> world \<Rightarrow> tree result"
  yieldExpressionTransformAny :: "tree \<Rightarrow> world \<Rightarrow> tree result"
  transformGeneratorBody :: "tree \<Rightarrow> world \<Rightarrow> tree result"
  transformAsyncBody :: "tree \<Rightarrow> world \<Rightarrow> tree result"

definition invoke ::
    "collaborator \<Rightarrow> (tree \<Rightarrow> world \<Rightarrow> tree result) \<Rightarrow> tree \<Rightarrow> world \<Rightarrow> tree result" where
  \<comment> \<open>a call of a sub-pass, entered in the log of calls\<close>
  "invoke c f t w = (case f t w of (r, w') \<Rightarrow> (r, w'\<lparr>calls := calls w @ [c]\<rparr>))"

fun truthy :: "bool option \<Rightarrow> bool" where
  \<comment> \<open>the \<^verbatim>\<open>isGenerator\<close> argument is \<^verbatim>\<open>undefined\<close> when an accessor passes none\<close>
  "truthy None = False"
| "truthy (Some b) = b"

text \<open>
  \<^verbatim>\<open>transformBody_\<close>, lines 220 to 242: what follows the early returns. \<^verbatim>\<open>finder\<close> is
  the variable declared at the top of the function, \<open>None\<close> while it is unassigned.
\<close>

definition lowerBody ::
    "env \<Rightarrow> YieldFinder option \<Rightarrow> bool option \<Rightarrow> tree \<Rightarrow> world \<Rightarrow> tree result" where
  "lowerBody env finder isGen body0 w =
     (case finder of
        None \<Rightarrow> (Inl TypeError, w)
      | Some f \<Rightarrow>
          (case (if hasForIn f \<and> (generators env \<or> deferredFunctions env)
                 then invoke ForInTransformPass (forInTransformAny env) body0 w
                 else (Inr body0, w)) of
             (Inl e, w1) \<Rightarrow> (Inl e, w1)
           | (Inr body1, w1) \<Rightarrow>
               if hasYield f \<or> truthy isGen then
                 (if generators env then
                    (case invoke YieldExpressionTransformer
                            (yieldExpressionTransformAny env) body1 w1 of
                       (Inl e, w2) \<Rightarrow> (Inl e, w2)
                     | (Inr body2, w2) \<Rightarrow>
                         invoke GeneratorTransformer (transformGeneratorBody env) body2 w2)
                  else (Inr body1, w1))
               else if deferredFunctions env then
                 invoke AsyncTransformer (transformAsyncBody env) body1 w1
               else (Inr body1, w1)))"

text \<open>
  \<^verbatim>\<open>transformBody_(tree, isGenerator)\<close>. The inherited traversal
  \<^verbatim>\<open>super.transformFunctionBody(tree)\<close> is outside the file: \<open>inner\<close> is what that call
  returned (the body with its nested functions transformed, and the state after it).
\<close>

definition transformBody_' :: "env \<Rightarrow> tree result \<Rightarrow> tree \<Rightarrow> bool option \<Rightarrow> tree result" where
  "transformBody_' env inner tree isGen =
     (case inner of
        (Inl e, w) \<Rightarrow> (Inl e, w)
      | (Inr body0, w) \<Rightarrow>
          if truthy isGen \<or> deferredFunctions env then
            (let finder = newYieldFinder env tree
             in if \<not> (hasYield finder \<or> truthy isGen \<or> hasAwait finder) then (Inr body0, w)
                else lowerBody env (Some finder) isGen body0 w)
          else if \<not> truthy isGen then (Inr body0, w)
          else lowerBody env None isGen body0 w)"

text \<open>
  \<^verbatim>\<open>transformFunction_(tree, constructor)\<close>, called on function declarations and function
  expressions with their own class as \<^verbatim>\<open>constructor\<close>; \<open>inner\<close> is the value of
  \<^verbatim>\<open>super.transformFunctionBody(tree.functionBody)\<close>. The test
  \<^verbatim>\<open>body === tree.functionBody\<close> compares addresses.
\<close>

type_synonym functionConstructor =
  "ref \<Rightarrow> SourceRange option \<Rightarrow> string option \<Rightarrow> bool \<Rightarrow> string list \<Rightarrow> string option \<Rightarrow>
   string list \<Rightarrow> tree \<Rightarrow> tree"

definition transformFunction_' ::
    "env \<Rightarrow> tree result \<Rightarrow> tree \<Rightarrow> functionConstructor \<Rightarrow> tree result" where
  "transformFunction_' env inner tree constructor =
     (case transformBody_' env inner (functionBody tree) (Some (isGenerator tree)) of
        (Inl e, w) \<Rightarrow> (Inl e, w)
      | (Inr body1, w) \<Rightarrow>
          if ref body1 = ref (functionBody tree) then (Inr tree, w)
          else ok (newNode (\<lambda>r. constructor r None (name tree) False
                                  (formalParameterList tree) (typeAnnotation tree)
                                  (annotations tree) body1) w))"

definition transformFunctionDeclaration :: "env \<Rightarrow> tree result \<Rightarrow> tree \<Rightarrow> tree result" where
  "transformFunctionDeclaration env inner tree =
     transformFunction_' env inner tree FunctionDeclaration"

definition transformFunctionExpression :: "env \<Rightarrow> tree result \<Rightarrow> tree \<Rightarrow> tree result" where
  "transformFunctionExpression env inner tree =
     transformFunction_' env inner tree FunctionExpression"

text \<open>
  \<^verbatim>\<open>transformGetAccessor\<close> and \<^verbatim>\<open>transformSetAccessor\<close> call \<^verbatim>\<open>transformBody_\<close> with one
  argument: \<^verbatim>\<open>isGenerator\<close> is \<^verbatim>\<open>undefined\<close>.
\<close>

definition transformGetAccessor :: "env \<Rightarrow> tree result \<Rightarrow> tree \<Rightarrow> tree result" where
  "transformGetAccessor env inner tree =
     (case transformBody_' env inner (body tree) None of
        (Inl e, w) \<Rightarrow> (Inl e, w)
      | (Inr body1, w) \<Rightarrow>
          if ref body1 = ref (body tree) then (Inr tree, w)
          else ok (newNode (\<lambda>r. GetAccessor r (location tree) (isStatic tree) (name tree)
                                  (typeAnnotation tree) (annotations tree) body1) w))"

definition transformSetAccessor :: "env \<Rightarrow> tree result \<Rightarrow> tree \<Rightarrow> tree result" where
  "transformSetAccessor env inner tree =
     (case transformBody_' env inner (body tree) None of
        (Inl e, w) \<Rightarrow> (Inl e, w)
      | (Inr body1, w) \<Rightarrow>
          if ref body1 = ref (body tree) then (Inr tree, w)
          else ok (newNode (\<lambda>r. SetAccessor r (location tree) (isStatic tree) (name tree)
                                  (parameter tree) (annotations tree) body1) w))"


section \<open>The inherited traversal\<close>

text \<open>
  Modelled from the spec: the generic tree-rewriting base class (\<^verbatim>\<open>TempVarTransformer\<close>
  and the transformer it extends) is not part of the source file. The spec gives its
  contract: it recurses into the children of a node, calls the driver's own methods on
  function declarations, function expressions and accessors, never mutates a node, and
  signals "no change" by returning the identical node; a node with a changed child is
  replaced by a new node of the same kind. \<open>children\<close> lists the subtrees of a node in
  source order, \<open>withChildren\<close> is the new node at address \<open>r'\<close> holding the transformed
  children \<open>cs\<close> (as many as \<open>children\<close> listed).
\<close>

fun children :: "tree \<Rightarrow> tree list" where
  "children (ExpressionStatement r l e) = [e]"
| "children (ParenExpression r l e) = [e]"
| "children (CommaExpression r l es) = es"
| "children (BinaryOperator r l a op b) = [a, b]"
| "children (YieldExpression r l e f) = (case e of None \<Rightarrow> [] | Some x \<Rightarrow> [x])"
| "children (VariableStatement r l d) = [d]"
| "children (VariableDeclarationList r l k ds) = ds"
| "children (VariableDeclaration r l lv i) = lv # (case i of None \<Rightarrow> [] | Some x \<Rightarrow> [x])"
| "children (ReturnStatement r l e) = (case e of None \<Rightarrow> [] | Some x \<Rightarrow> [x])"
| "children (Block r l ss) = ss"
| "children (MemberExpression r l obj m) = [obj]"
| "children (IdentifierExpression r l s) = []"
| "children (FunctionBody r l ss) = ss"
| "children (FunctionDeclaration r l n g ps t a fb) = [fb]"
| "children (FunctionExpression r l n g ps t a fb) = [fb]"
| "children (GetAccessor r l st n t a b) = [b]"
| "children (SetAccessor r l st n p a b) = [b]"
| "children (OtherTree r l k cs) = cs"

definition withChildren :: "tree \<Rightarrow> ref \<Rightarrow> tree list \<Rightarrow> tree" where
  "withChildren tree r' cs =
     (case tree of
        ExpressionStatement r l e \<Rightarrow> ExpressionStatement r' l (hd cs)
      | ParenExpression r l e \<Rightarrow> ParenExpression r' l (hd cs)
      | CommaExpression r l es \<Rightarrow> CommaExpression r' l cs
      | BinaryOperator r l a op b \<Rightarrow> BinaryOperator r' l (hd cs) op (hd (tl cs))
      | YieldExpression r l e f \<Rightarrow> YieldExpression r' l (map_option (\<lambda>x. hd cs) e) f
      | VariableStatement r l d \<Rightarrow> VariableStatement r' l (hd cs)
      | VariableDeclarationList r l k ds \<Rightarrow> VariableDeclarationList r' l k cs
      | VariableDeclaration r l lv i \<Rightarrow>
          VariableDeclaration r' l (hd cs) (map_option (\<lambda>x. hd (tl cs)) i)
      | ReturnStatement r l e \<Rightarrow> ReturnStatement r' l (map_option (\<lambda>x. hd cs) e)
      | Block r l ss \<Rightarrow> Block r' l cs
      | MemberExpression r l obj m \<Rightarrow> MemberExpression r' l (hd cs) m
      | IdentifierExpression r l s \<Rightarrow> IdentifierExpression r' l s
      | FunctionBody r l ss \<Rightarrow> FunctionBody r' l cs
      | FunctionDeclaration r l n g ps t a fb \<Rightarrow> FunctionDeclaration r' l n g ps t a (hd cs)
      | FunctionExpression r l n g ps t a fb \<Rightarrow> FunctionExpression r' l n g ps t a (hd cs)
      | GetAccessor r l st n t a b \<Rightarrow> GetAccessor r' l st n t a (hd cs)
      | SetAccessor r l st n p a b \<Rightarrow> SetAccessor r' l st n p a (hd cs)
      | OtherTree r l k ss \<Rightarrow> OtherTree r' l k cs)"

text \<open>
  \<open>transformAny\<close> is the pass applied to any node: the four function-bearing kinds go to
  the driver's methods, which receive the value of \<^verbatim>\<open>super.transformFunctionBody\<close> on the
  body; every other node is traversed by \<open>transformSuper\<close>, which is also what
  \<^verbatim>\<open>super.transformFunctionBody\<close> does on a function body.
\<close>

function transformAny :: "env \<Rightarrow> tree \<Rightarrow> world \<Rightarrow> tree result"
  and transformList :: "env \<Rightarrow> tree list \<Rightarrow> world \<Rightarrow> (tree list) result"
  and transformSuper :: "env \<Rightarrow> tree \<Rightarrow> world \<Rightarrow> tree result"
where
  "transformAny env tree w =
     (case tree of
        FunctionDeclaration r l n g ps t a fb \<Rightarrow>
          transformFunctionDeclaration env (transformSuper env fb w) tree
      | FunctionExpression r l n g ps t a fb \<Rightarrow>
          transformFunctionExpression env (transformSuper env fb w) tree
      | GetAccessor r l st n t a b \<Rightarrow>
          transformGetAccessor env (transformSuper env b w) tree
      | SetAccessor r l st n p a b \<Rightarrow>
          transformSetAccessor env (transformSuper env b w) tree
      | _ \<Rightarrow> transformSuper env tree w)"
| "transformList env [] w = (Inr [], w)"
| "transformList env (t # ts) w =
     (case transformAny env t w of
        (Inl e, w1) \<Rightarrow> (Inl e, w1)
      | (Inr t', w1) \<Rightarrow>
          (case transformList env ts w1 of
             (Inl e, w2) \<Rightarrow> (Inl e, w2)
           | (Inr ts', w2) \<Rightarrow> (Inr (t' # ts'), w2)))"
| "transformSuper env tree w =
     (case transformList env (children tree) w of
        (Inl e, w1) \<Rightarrow> (Inl e, w1)
      | (Inr cs, w1) \<Rightarrow>
          if map ref cs = map ref (children tree) then (Inr tree, w1)
          else ok (newNode (\<lambda>r. withChildren tree r cs) w1))"
  by pat_completeness auto
termination
proof -
  have lin: "sum_list (map (\<lambda>t. Suc (2 * size t)) ts) = 2 * sum_list (map size ts) + length ts"
    for ts :: "tree list"
    by (induction ts) simp_all
  have "sum_list (map (\<lambda>t. Suc (2 * size t)) (children tree)) < Suc (2 * size tree)" for tree
    by (cases tree) (simp_all add: lin size_list_conv_sum_list split: option.splits)
  then have ch: "3 * sum_list (map (\<lambda>t. Suc (2 * size t)) (children tree)) < Suc (6 * size tree)"
    for tree
    using less_Suc_eq_le [of "sum_list (map (\<lambda>t. Suc (2 * size t)) (children tree))" "2 * size tree"]
    by simp
  show ?thesis
    by (relation "measure (\<lambda>x. case x of
          Inl (env, t, w) \<Rightarrow> 6 * size t + 3
        | Inr (Inl (env, ts, w)) \<Rightarrow> 3 * sum_list (map (\<lambda>t. 2 * size t + 1) ts) + 1
        | Inr (Inr (env, t, w)) \<Rightarrow> 6 * size t + 2)")
       (simp_all add: ch)
qed

declare transformAny.simps [simp del]
declare transformSuper.simps [simp del]

section \<open>Properties of trees the claims speak of\<close>

text \<open>
  All the nodes of a tree, the tree itself first; nested functions and accessors are
  entered. A tree contains a suspend expression when one of its nodes is a yield
  expression, and a generator when one of its nodes is a function declaration or
  expression whose generator flag is set.
\<close>

function nodes :: "tree \<Rightarrow> tree list" where
  "nodes t = t # concat (map nodes (children t))"
  by pat_completeness auto
termination
proof -
  have "c \<in> set (children t) \<Longrightarrow> size c < size t" for c t
    by (cases t) (auto simp: less_Suc_eq_le size_list_estimation' split: option.splits)
  then show ?thesis
    by (relation "measure size") simp_all
qed

declare nodes.simps [simp del]

fun isGeneratorFunction :: "tree \<Rightarrow> bool" where
  "isGeneratorFunction (FunctionDeclaration r l n g ps t a fb) = g"
| "isGeneratorFunction (FunctionExpression r l n g ps t a fb) = g"
| "isGeneratorFunction t = False"

definition containsYield :: "tree \<Rightarrow> bool" where
  "containsYield t = list_ex isYieldExpression (nodes t)"

definition containsGenerator :: "tree \<Rightarrow> bool" where
  "containsGenerator t = list_ex isGeneratorFunction (nodes t)"


section \<open>Notions of the claims and example inputs\<close>

text \<open>
  The resumed-value slot is the expression \<^verbatim>\<open>$ctx.sent\<close>; built by
  \<^verbatim>\<open>createMemberExpression('$ctx', 'sent')\<close> in a store whose next free address is \<open>r\<close>,
  it is the following tree.
\<close>

definition resumedValueSlot :: "ref \<Rightarrow> tree" where
  "resumedValueSlot r =
     MemberExpression (Suc r) None (IdentifierExpression r None ''$ctx'') ''sent''"

text \<open>
  The first of the three shapes the rewriter recognizes, in the words of the spec: the
  parenthesis-stripped expression is a comma expression whose first element is an assignment
  of a suspend expression.
\<close>

definition commaFirstYieldAssign :: "tree \<Rightarrow> bool" where
  "commaFirstYieldAssign e =
     (case stripParens e of
        CommaExpression r l (ex0 # rest) \<Rightarrow> isBinaryOperator ex0 \<and> isYieldAssign ex0
      | _ \<Rightarrow> False)"

text \<open>
  The parser builds a comma expression from at least two expressions and a declaration list
  from at least one declarator; \<open>hasEmptyList\<close> holds of the lists it never builds.
\<close>

fun hasEmptyList :: "tree \<Rightarrow> bool" where
  "hasEmptyList (CommaExpression r l es) = (es = [])"
| "hasEmptyList (VariableDeclarationList r l k ds) = (ds = [])"
| "hasEmptyList t = False"

text \<open>Example inputs: a store, and the statements the spec uses as examples.\<close>

definition w0 :: world where
  "w0 = \<lparr>nextRef = 100, identifierGenerator = 0, reporter = [], calls = []\<rparr>"

definition id_x :: tree where
  "id_x = IdentifierExpression 3 (Some (SourceRange 0 1)) ''x''"

definition yield_e :: tree where
  "yield_e = YieldExpression 4 (Some (SourceRange 4 11))
               (Some (IdentifierExpression 5 (Some (SourceRange 10 11)) ''e'')) False"

definition assign_x_yield_e :: tree where
  "assign_x_yield_e = BinaryOperator 2 (Some (SourceRange 0 11)) id_x EQUAL yield_e"

definition id_a :: tree where
  "id_a = IdentifierExpression 6 None ''a''"

definition id_b :: tree where
  "id_b = IdentifierExpression 7 None ''b''"

definition stmt_assign :: tree where
  \<comment> \<open>\<^verbatim>\<open>x = yield e;\<close>\<close>
  "stmt_assign = ExpressionStatement 1 (Some (SourceRange 0 12)) assign_x_yield_e"

definition stmt_comma :: tree where
  \<comment> \<open>\<^verbatim>\<open>(x = yield e, a, b);\<close>\<close>
  "stmt_comma = ExpressionStatement 1 None
     (ParenExpression 8 None (CommaExpression 9 None [assign_x_yield_e, id_a, id_b]))"

definition decl_y :: tree where
  \<comment> \<open>\<^verbatim>\<open>y = f()\<close>\<close>
  "decl_y = VariableDeclaration 10 None (IdentifierExpression 11 None ''y'')
     (Some (OtherTree 12 None ''CALL_EXPRESSION'' [IdentifierExpression 13 None ''f'']))"

definition stmt_var :: tree where
  \<comment> \<open>\<^verbatim>\<open>var x = yield e, y = f();\<close>\<close>
  "stmt_var = VariableStatement 1 None
     (VariableDeclarationList 14 None VAR
        [VariableDeclaration 15 None id_x (Some yield_e), decl_y])"

definition stmt_return :: tree where
  \<comment> \<open>\<^verbatim>\<open>return yield e;\<close>\<close>
  "stmt_return = ReturnStatement 1 (Some (SourceRange 0 15)) (Some yield_e)"

definition stmt_yield :: tree where
  \<comment> \<open>\<^verbatim>\<open>yield e;\<close>\<close>
  "stmt_yield = ExpressionStatement 1 None yield_e"

definition stmt_comma_late :: tree where
  \<comment> \<open>\<^verbatim>\<open>a, x = yield e;\<close>\<close>
  "stmt_comma_late =
     ExpressionStatement 1 None (CommaExpression 9 None [id_a, assign_x_yield_e])"

definition stmt_var_late :: tree where
  \<comment> \<open>\<^verbatim>\<open>let y = f(), x = yield e;\<close>\<close>
  "stmt_var_late = VariableStatement 1 None
     (VariableDeclarationList 14 None LET
        [decl_y, VariableDeclaration 15 None id_x (Some yield_e)])"

definition stmt_comma_two :: tree where
  \<comment> \<open>\<^verbatim>\<open>x = yield e, b = yield e, a;\<close>\<close>
  "stmt_comma_two = ExpressionStatement 1 None
     (CommaExpression 9 None
        [assign_x_yield_e, BinaryOperator 16 None id_b EQUAL yield_e, id_a])"

definition stmt_var_two :: tree where
  \<comment> \<open>\<^verbatim>\<open>var x = yield e, b = yield e, y = f();\<close>\<close>
  "stmt_var_two = VariableStatement 1 None
     (VariableDeclarationList 14 None VAR
        [VariableDeclaration 15 None id_x (Some yield_e),
         VariableDeclaration 17 None id_b (Some yield_e), decl_y])"

definition stmt_return_a :: tree where
  \<comment> \<open>\<^verbatim>\<open>return a;\<close>\<close>
  "stmt_return_a = ReturnStatement 1 None (Some id_a)"

definition stmt_let_y :: tree where
  \<comment> \<open>\<^verbatim>\<open>let y = f();\<close>\<close>
  "stmt_let_y = VariableStatement 1 None (VariableDeclarationList 14 None LET [decl_y])"

text \<open>
  The three shapes the rewriter recognizes, in the words of the spec: a comma-first
  suspend assignment in an expression statement, a suspend initializer on the first
  declarator of a variable statement, a suspend expression of a return statement.
\<close>

definition recognizedShape :: "tree \<Rightarrow> bool" where
  "recognizedShape s =
     (case s of
        ExpressionStatement r l e \<Rightarrow> commaFirstYieldAssign e
      | VariableStatement r l (VariableDeclarationList r' l' k (d0 # rest)) \<Rightarrow>
          isYieldVarAssign d0
      | ReturnStatement r l (Some e) \<Rightarrow> isYieldExpression e
      | _ \<Rightarrow> False)"

text \<open>
  Example collaborators. The analyzer of the examples reports the suspend expressions,
  await statements and for-in statements among the nodes of the body it is given (the
  example bodies it is asked about hold none inside a nested function). The for-in pass and
  the two builders of the examples return a new node that wraps their input; the rewriter
  of the examples finds nothing to factor.
\<close>

fun isKind :: "string \<Rightarrow> tree \<Rightarrow> bool" where
  "isKind k (OtherTree r l k' cs) = (k' = k)"
| "isKind k t = False"

definition exampleFinder :: "tree \<Rightarrow> YieldFinder" where
  "exampleFinder t =
     \<lparr>hasYield = list_ex isYieldExpression (nodes t),
      hasAwait = list_ex (isKind ''AWAIT_STATEMENT'') (nodes t),
      hasForIn = list_ex (isKind ''FOR_IN_STATEMENT'') (nodes t)\<rparr>"

definition stubPass :: "string \<Rightarrow> tree \<Rightarrow> world \<Rightarrow> tree result" where
  "stubPass tag t w = ok (newNode (\<lambda>r. OtherTree r None tag [t]) w)"

definition exampleEnv :: "bool \<Rightarrow> bool \<Rightarrow> env" where
  "exampleEnv gen deferred =
     \<lparr>generators = gen, deferredFunctions = deferred,
      newYieldFinder = exampleFinder,
      forInTransformAny = stubPass ''forInLowered'',
      yieldExpressionTransformAny = (\<lambda>t w. (Inr t, w)),
      transformGeneratorBody = stubPass ''generatorStateMachine'',
      transformAsyncBody = stubPass ''asyncStateMachine''\<rparr>"

definition emptyBody :: tree where
  "emptyBody = FunctionBody 21 (Some (SourceRange 30 32)) []"

definition gen_g :: tree where
  \<comment> \<open>\<^verbatim>\<open>function* g() {}\<close>\<close>
  "gen_g = FunctionDeclaration 20 (Some (SourceRange 15 32)) (Some ''g'') True [] None []
             emptyBody"

definition fun_f :: tree where
  \<comment> \<open>\<^verbatim>\<open>function f() { function* g() {} }\<close>\<close>
  "fun_f = FunctionDeclaration 22 (Some (SourceRange 0 34)) (Some ''f'') False [] None []
             (FunctionBody 23 None [gen_g])"

definition forInBody :: tree where
  \<comment> \<open>\<^verbatim>\<open>{ for (k in o) {} }\<close>\<close>
  "forInBody = FunctionBody 24 None
     [OtherTree 25 None ''FOR_IN_STATEMENT''
        [IdentifierExpression 26 None ''k'', IdentifierExpression 27 None ''o'',
         Block 28 None []]]"

definition fun_h :: tree where
  \<comment> \<open>\<^verbatim>\<open>function h() { for (k in o) {} }\<close>\<close>
  "fun_h = FunctionDeclaration 29 (Some (SourceRange 0 40)) (Some ''h'') False [] None []
             forInBody"

definition yieldBody :: tree where
  \<comment> \<open>\<^verbatim>\<open>{ yield e; }\<close>\<close>
  "yieldBody = FunctionBody 41 None [stmt_yield]"

definition gen_expr :: tree where
  \<comment> \<open>\<^verbatim>\<open>function*(a) { yield e; }\<close> with a type annotation and an annotation\<close>
  "gen_expr = FunctionExpression 40 (Some (SourceRange 0 28)) None True [''a'']
                (Some ''T'') [''Ann''] yieldBody"

definition fun_k :: tree where
  \<comment> \<open>\<^verbatim>\<open>function k() { yield e; }\<close>, not a generator\<close>
  "fun_k = FunctionDeclaration 42 None (Some ''k'') False [] None [] yieldBody"

definition get_x :: tree where
  \<comment> \<open>\<^verbatim>\<open>get x() { function* g() {} }\<close>\<close>
  "get_x = GetAccessor 30 (Some (SourceRange 0 50)) False (Some ''x'') None []
             (FunctionBody 31 None [gen_g])"

definition awaitBody :: tree where
  \<comment> \<open>a body holding an await statement\<close>
  "awaitBody = FunctionBody 32 None
     [OtherTree 33 None ''AWAIT_STATEMENT'' [IdentifierExpression 34 None ''p'']]"

definition set_x :: tree where
  \<comment> \<open>a static setter \<^verbatim>\<open>x\<close> with parameter \<^verbatim>\<open>v\<close> whose body awaits\<close>
  "set_x = SetAccessor 35 (Some (SourceRange 0 60)) True (Some ''x'') ''v'' [''Ann'']
             awaitBody"

section \<open>The suspend-factoring rewriter\<close>

lemmas factory_defs = newNode_def createExpressionStatement_def createCommaExpression_def
  createAssignmentExpression_def createAssignmentStatement_def createBlock_def
  createReturnStatement_def createIdentifierExpression_def createMemberExpression_def createVariableDeclaration_def
  createVariableDeclarationList_def createVariableStatement_def

lemmas rewriter_defs = factor_'_def factorAssign_'_def commaWrap_def varWrap_def ok_def
  resumedValueSlot_def

lemmas example_defs = w0_def id_x_def yield_e_def assign_x_yield_e_def id_a_def id_b_def
  stmt_assign_def stmt_comma_def decl_y_def stmt_var_def stmt_return_def stmt_yield_def
  stmt_comma_late_def stmt_var_late_def stmt_comma_two_def stmt_var_two_def
  stmt_return_a_def stmt_let_y_def

lemmas driver_example_defs = exampleFinder_def stubPass_def exampleEnv_def emptyBody_def
  gen_g_def fun_f_def forInBody_def fun_h_def yieldBody_def gen_expr_def fun_k_def
  get_x_def awaitBody_def set_x_def

text \<open>
  Claim C5. A return statement whose expression is a suspend expression becomes a block of
  exactly two statements: an expression statement whose expression is the original suspend
  expression, the same object, and a return statement whose expression is the
  resumed-value slot.
\<close>

theorem transformReturnStatement_yield:
  "transformReturnStatement (ReturnStatement r l (Some (YieldExpression ry ly e f))) w =
     (Inr (Block (nextRef w + 4) None
        [ExpressionStatement (nextRef w) None (YieldExpression ry ly e f),
         ReturnStatement (nextRef w + 3) None (Some (resumedValueSlot (nextRef w + 1)))]),
      w\<lparr>nextRef := nextRef w + 5\<rparr>)"
  by (simp add: transformReturnStatement_def rewriter_defs factory_defs)

theorem transformReturnStatement_yield_witness:
  "transformReturnStatement stmt_return w0 =
     (Inr (Block 104 None
        [ExpressionStatement 100 None yield_e,
         ReturnStatement 103 None (Some (resumedValueSlot 101))]),
      w0\<lparr>nextRef := 105\<rparr>)"
  using transformReturnStatement_yield
    [of 1 "Some (SourceRange 0 15)" 4 "Some (SourceRange 4 11)"
        "Some (IdentifierExpression 5 (Some (SourceRange 10 11)) ''e'')" False w0]
  by (simp add: example_defs)

text \<open>
  Claim C6. A variable statement whose first declarator is initialised with a suspend
  expression becomes a block whose second statement is a variable statement of the same
  declaration kind, in which every declarator after the first is the original one, in the
  original order.
\<close>

theorem transformVariableStatement_yield:
  "transformVariableStatement
     (VariableStatement r l (VariableDeclarationList r' l' declType
        (VariableDeclaration rd ld lv (Some (YieldExpression ry ly e f)) # rest))) w =
     (Inr (Block (nextRef w + 6) None
        [ExpressionStatement (nextRef w) None (YieldExpression ry ly e f),
         VariableStatement (nextRef w + 5) None
           (VariableDeclarationList (nextRef w + 4) None declType
              (VariableDeclaration (nextRef w + 3) None lv
                 (Some (resumedValueSlot (nextRef w + 1))) # rest))]),
      w\<lparr>nextRef := nextRef w + 7\<rparr>)"
  by (simp add: transformVariableStatement_def isYieldVarAssign_def rewriter_defs factory_defs)

theorem transformVariableStatement_yield_witness:
  "transformVariableStatement stmt_var w0 =
     (Inr (Block 106 None
        [ExpressionStatement 100 None yield_e,
         VariableStatement 105 None
           (VariableDeclarationList 104 None VAR
              [VariableDeclaration 103 None id_x (Some (resumedValueSlot 101)), decl_y])]),
      w0\<lparr>nextRef := 107\<rparr>)"
  using transformVariableStatement_yield
    [of 1 None 14 None VAR 15 None id_x 4 "Some (SourceRange 4 11)"
        "Some (IdentifierExpression 5 (Some (SourceRange 10 11)) ''e'')" False "[decl_y]" w0]
  by (simp add: example_defs)

text \<open>
  Claim C2. The expression statement \<^verbatim>\<open>x = yield e;\<close>, a plain assignment of a suspend
  expression, is to become the two-statement block \<^verbatim>\<open>{ yield e; x = $ctx.sent; }\<close>. The
  comment above the \<^verbatim>\<open>switch\<close> of \<^verbatim>\<open>transformExpressionStatement\<close> names
  \<^verbatim>\<open>BINARY_OPERATOR\<close> and \<^verbatim>\<open>COMMA_EXPRESSION\<close> as the cases it supports, and the comma
  case factors such an assignment, but the \<^verbatim>\<open>switch\<close> has no \<^verbatim>\<open>BINARY_OPERATOR\<close>
  case: the code returns the statement itself, which differs from the block that
  \<^verbatim>\<open>factorAssign_\<close> builds with the imported \<^verbatim>\<open>createAssignmentStatement\<close>.
\<close>

theorem transformExpressionStatement_assign_unfactored:
  "expression stmt_assign = assign_x_yield_e \<and> isYieldAssign assign_x_yield_e \<and>
   transformExpressionStatement stmt_assign w0 = (Inr stmt_assign, w0) \<and>
   ok (factorAssign_' (left assign_x_yield_e) (right assign_x_yield_e)
         createAssignmentStatement w0) =
     (Inr (Block 105 None
        [ExpressionStatement 100 None yield_e,
         ExpressionStatement 104 None
           (BinaryOperator 103 None id_x EQUAL (resumedValueSlot 101))]),
      w0\<lparr>nextRef := 106\<rparr>) \<and>
   transformExpressionStatement stmt_assign w0 \<noteq>
     ok (factorAssign_' (left assign_x_yield_e) (right assign_x_yield_e)
           createAssignmentStatement w0)"
  by (simp add: transformExpressionStatement_def example_defs rewriter_defs factory_defs)

text \<open>
  Claim C7. In a comma-expression statement or a declarator list only the first element is
  inspected. When the first element is not a suspend assignment the statement is returned
  unchanged, whatever the later elements are (a suspend assignment in position 2 or later
  stays where it is); when the first element is factored, the result is the block of the
  suspend expression and the rebuilt statement, whose list is the resumed-value assignment
  followed by the elements after the first, unchanged and in order.
\<close>

theorem rewriter_first_element_only:
  "(stripParens e0 = CommaExpression rc lc (ex0 # rest) \<and>
      \<not> (isBinaryOperator ex0 \<and> isYieldAssign ex0) \<longrightarrow>
    transformExpressionStatement (ExpressionStatement r l e0) w =
      (Inr (ExpressionStatement r l e0), w)) \<and>
   (\<not> isYieldVarAssign d0 \<longrightarrow>
    transformVariableStatement
       (VariableStatement rv lv (VariableDeclarationList r' l' declType (d0 # ds))) w =
      (Inr (VariableStatement rv lv (VariableDeclarationList r' l' declType (d0 # ds))), w)) \<and>
   (stripParens e0 = CommaExpression rc lc (ex0 # rest) \<and>
      isBinaryOperator ex0 \<and> isYieldAssign ex0 \<longrightarrow>
    transformExpressionStatement (ExpressionStatement r l e0) w =
      (Inr (Block (nextRef w + 6) None
         [ExpressionStatement (nextRef w) None (right ex0),
          ExpressionStatement (nextRef w + 5) None
            (CommaExpression (nextRef w + 4) None
               (BinaryOperator (nextRef w + 3) None (left ex0) EQUAL
                  (resumedValueSlot (nextRef w + 1)) # rest))]),
       w\<lparr>nextRef := nextRef w + 7\<rparr>)) \<and>
   (isYieldVarAssign d0 \<longrightarrow>
    transformVariableStatement
       (VariableStatement rv lv (VariableDeclarationList r' l' declType (d0 # ds))) w =
      (Inr (Block (nextRef w + 6) None
         [ExpressionStatement (nextRef w) None (the (initialiser_of d0)),
          VariableStatement (nextRef w + 5) None
            (VariableDeclarationList (nextRef w + 4) None declType
               (VariableDeclaration (nextRef w + 3) None (lvalue d0)
                  (Some (resumedValueSlot (nextRef w + 1))) # ds))]),
       w\<lparr>nextRef := nextRef w + 7\<rparr>))"
  by (simp add: transformExpressionStatement_def transformVariableStatement_def
        rewriter_defs factory_defs)

theorem rewriter_first_element_only_witness:
  "stripParens (CommaExpression 9 None [id_a, assign_x_yield_e]) =
      CommaExpression 9 None [id_a, assign_x_yield_e] \<and>
   isYieldAssign assign_x_yield_e \<and>
   transformExpressionStatement stmt_comma_late w0 = (Inr stmt_comma_late, w0) \<and>
   isYieldVarAssign (VariableDeclaration 15 None id_x (Some yield_e)) \<and>
   transformVariableStatement stmt_var_late w0 = (Inr stmt_var_late, w0) \<and>
   isYieldAssign (BinaryOperator 16 None id_b EQUAL yield_e) \<and>
   transformExpressionStatement stmt_comma_two w0 =
     (Inr (Block 106 None
        [ExpressionStatement 100 None yield_e,
         ExpressionStatement 105 None
           (CommaExpression 104 None
              [BinaryOperator 103 None id_x EQUAL (resumedValueSlot 101),
               BinaryOperator 16 None id_b EQUAL yield_e, id_a])]),
      w0\<lparr>nextRef := 107\<rparr>) \<and>
   transformVariableStatement stmt_var_two w0 =
     (Inr (Block 106 None
        [ExpressionStatement 100 None yield_e,
         VariableStatement 105 None
           (VariableDeclarationList 104 None VAR
              [VariableDeclaration 103 None id_x (Some (resumedValueSlot 101)),
               VariableDeclaration 17 None id_b (Some yield_e), decl_y])]),
      w0\<lparr>nextRef := 107\<rparr>)"
  using rewriter_first_element_only
      [where ?e0.0 = "CommaExpression 9 None [id_a, assign_x_yield_e]" and rc = 9
        and lc = None and ?ex0.0 = id_a and rest = "[assign_x_yield_e]" and r = 1 and l = None
        and w = w0 and ?d0.0 = decl_y and rv = 1 and lv = None and r' = 14 and l' = None
        and declType = LET and ds = "[VariableDeclaration 15 None id_x (Some yield_e)]"]
    rewriter_first_element_only
      [where ?e0.0 = "CommaExpression 9 None
          [assign_x_yield_e, BinaryOperator 16 None id_b EQUAL yield_e, id_a]"
        and rc = 9 and lc = None and ?ex0.0 = assign_x_yield_e
        and rest = "[BinaryOperator 16 None id_b EQUAL yield_e, id_a]"
        and r = 1 and l = None and w = w0
        and ?d0.0 = "VariableDeclaration 15 None id_x (Some yield_e)"
        and rv = 1 and lv = None and r' = 14 and l' = None and declType = VAR
        and ds = "[VariableDeclaration 17 None id_b (Some yield_e), decl_y]"]
  by (simp add: example_defs isYieldVarAssign_def)

text \<open>
  Claim C9. A statement that matches none of the three recognized shapes is returned as the
  identical node, by each of the three methods on the statement kind it is called for; in
  particular a suspend expression standing alone as an expression statement passes through
  unchanged. (The comma expressions and declarator lists are those the parser builds: they
  are not empty.)
\<close>

theorem rewriter_identity_on_other_shapes:
  "(\<not> recognizedShape (ExpressionStatement r l e0) \<and> \<not> hasEmptyList (stripParens e0) \<longrightarrow>
    transformExpressionStatement (ExpressionStatement r l e0) w =
      (Inr (ExpressionStatement r l e0), w)) \<and>
   (\<not> recognizedShape (VariableStatement r l (VariableDeclarationList r' l' k ds)) \<and>
      \<not> hasEmptyList (VariableDeclarationList r' l' k ds) \<longrightarrow>
    transformVariableStatement (VariableStatement r l (VariableDeclarationList r' l' k ds)) w =
      (Inr (VariableStatement r l (VariableDeclarationList r' l' k ds)), w)) \<and>
   (\<not> recognizedShape (ReturnStatement r l eo) \<longrightarrow>
    transformReturnStatement (ReturnStatement r l eo) w = (Inr (ReturnStatement r l eo), w)) \<and>
   transformExpressionStatement (ExpressionStatement r l (YieldExpression ry ly e f)) w =
     (Inr (ExpressionStatement r l (YieldExpression ry ly e f)), w)"
proof (intro conjI impI)
  assume "\<not> recognizedShape (ExpressionStatement r l e0) \<and> \<not> hasEmptyList (stripParens e0)"
  then show "transformExpressionStatement (ExpressionStatement r l e0) w =
      (Inr (ExpressionStatement r l e0), w)"
    by (auto simp: recognizedShape_def commaFirstYieldAssign_def
        transformExpressionStatement_def split: tree.splits list.splits)
next
  assume "\<not> recognizedShape (VariableStatement r l (VariableDeclarationList r' l' k ds)) \<and>
      \<not> hasEmptyList (VariableDeclarationList r' l' k ds)"
  then show "transformVariableStatement
       (VariableStatement r l (VariableDeclarationList r' l' k ds)) w =
      (Inr (VariableStatement r l (VariableDeclarationList r' l' k ds)), w)"
    by (auto simp: recognizedShape_def transformVariableStatement_def split: list.splits)
next
  assume "\<not> recognizedShape (ReturnStatement r l eo)"
  then show "transformReturnStatement (ReturnStatement r l eo) w =
      (Inr (ReturnStatement r l eo), w)"
    by (auto simp: recognizedShape_def transformReturnStatement_def split: option.splits)
next
  show "transformExpressionStatement (ExpressionStatement r l (YieldExpression ry ly e f)) w =
     (Inr (ExpressionStatement r l (YieldExpression ry ly e f)), w)"
    by (simp add: transformExpressionStatement_def)
qed

theorem rewriter_identity_on_other_shapes_witness:
  "recognizedShape stmt_yield = False \<and> hasEmptyList (stripParens yield_e) = False \<and>
   transformExpressionStatement stmt_yield w0 = (Inr stmt_yield, w0) \<and>
   recognizedShape stmt_assign = False \<and>
   transformExpressionStatement stmt_assign w0 = (Inr stmt_assign, w0) \<and>
   recognizedShape stmt_let_y = False \<and>
   transformVariableStatement stmt_let_y w0 = (Inr stmt_let_y, w0) \<and>
   recognizedShape stmt_return_a = False \<and>
   transformReturnStatement stmt_return_a w0 = (Inr stmt_return_a, w0)"
  using rewriter_identity_on_other_shapes
      [where r = 1 and l = None and ?e0.0 = yield_e and w = w0 and r' = 14 and l' = None
        and k = LET and ds = "[decl_y]" and eo = "Some id_a"]
    rewriter_identity_on_other_shapes
      [where r = 1 and l = "Some (SourceRange 0 12)" and ?e0.0 = assign_x_yield_e and w = w0]
  by (simp add: example_defs recognizedShape_def commaFirstYieldAssign_def isYieldVarAssign_def)

text \<open>
  On a list the parser never builds, the read of \<^verbatim>\<open>ex[0].type\<close> or of
  \<^verbatim>\<open>tdd[0].initialiser\<close> is a read on \<^verbatim>\<open>undefined\<close>.
\<close>

lemma transformExpressionStatement_empty_comma:
  "transformExpressionStatement (ExpressionStatement r l (CommaExpression rc lc [])) w =
     (Inl TypeError, w)"
  by (simp add: transformExpressionStatement_def)

lemma transformVariableStatement_empty_list:
  "transformVariableStatement (VariableStatement r l (VariableDeclarationList r' l' k [])) w =
     (Inl TypeError, w)"
  by (simp add: transformVariableStatement_def)


section \<open>The transform driver\<close>

text \<open>
  Claim C1, as the spec states it: a generator whose body shows no direct suspend and no
  await-suspend passes through with no factoring, no for-in lowering and no builder applied.
  The code tests \<^verbatim>\<open>finder.hasYield || isGenerator || finder.hasAwait\<close>: for the generator
  \<^verbatim>\<open>function* g() {}\<close> with generator support enabled, the rewriter and the generator
  builder are called on the empty body and the node is replaced.
\<close>

theorem transformBody_generator_no_suspend_counterexample:
  "hasYield (newYieldFinder (exampleEnv True False) emptyBody) = False \<and>
   hasAwait (newYieldFinder (exampleEnv True False) emptyBody) = False \<and>
   transformSuper (exampleEnv True False) emptyBody w0 = (Inr emptyBody, w0) \<and>
   transformBody_' (exampleEnv True False) (Inr emptyBody, w0) emptyBody (Some True) =
     (Inr (OtherTree 100 None ''generatorStateMachine'' [emptyBody]),
      w0\<lparr>nextRef := 101, calls := [YieldExpressionTransformer, GeneratorTransformer]\<rparr>) \<and>
   transformAny (exampleEnv True False) gen_g w0 =
     (Inr (FunctionDeclaration 101 None (Some ''g'') False [] None []
             (OtherTree 100 None ''generatorStateMachine'' [emptyBody])),
      w0\<lparr>nextRef := 102, calls := [YieldExpressionTransformer, GeneratorTransformer]\<rparr>) \<and>
   transformAny (exampleEnv True False) gen_g w0 \<noteq> (Inr gen_g, w0)"
  by (simp add: driver_example_defs w0_def transformAny.simps transformSuper.simps
      transformFunctionDeclaration_def transformFunction_'_def transformBody_'_def
      lowerBody_def invoke_def ok_def newNode_def nodes.simps)

text \<open>
  Claim C1, amended. When the analyzer shows no direct suspend and no await-suspend, a body
  whose node is not declared as a generator is returned as the inherited traversal left it,
  with the state (and so the log of calls) as the traversal left it: no factoring, no for-in
  lowering and no builder is applied. A node declared as a generator is not skipped on that
  ground: no sub-pass is applied to its body if and only if generator support is disabled
  and no for-in lowering applies (the analyzer reports no for-in loop, or deferred-function
  support is disabled too), and then the body is returned in the same way. Otherwise the
  for-in lowering pass comes first when the analyzer reports a for-in loop and generator or
  deferred-function support is enabled, and with generator support enabled the factoring
  rewriter and then the generator builder are applied to what it returned.
\<close>

theorem transformBody_no_suspend:
  "\<not> hasYield (newYieldFinder env tree) \<and> \<not> hasAwait (newYieldFinder env tree) \<longrightarrow>
     (\<not> truthy isGen \<longrightarrow> transformBody_' env inner tree isGen = inner) \<and>
     (truthy isGen \<and> \<not> generators env \<and>
        \<not> (hasForIn (newYieldFinder env tree) \<and> deferredFunctions env) \<longrightarrow>
      transformBody_' env inner tree isGen = inner) \<and>
     (truthy isGen \<and> generators env \<and> \<not> hasForIn (newYieldFinder env tree) \<longrightarrow>
      transformBody_' env (Inr body0, w) tree isGen =
        (case invoke YieldExpressionTransformer (yieldExpressionTransformAny env) body0 w of
           (Inl e, w2) \<Rightarrow> (Inl e, w2)
         | (Inr body2, w2) \<Rightarrow> invoke GeneratorTransformer (transformGeneratorBody env) body2 w2)) \<and>
     (truthy isGen \<longrightarrow>
      transformBody_' env (Inr body0, w) tree isGen =
        (case (if hasForIn (newYieldFinder env tree) \<and>
                   (generators env \<or> deferredFunctions env)
               then invoke ForInTransformPass (forInTransformAny env) body0 w
               else (Inr body0, w)) of
           (Inl e, w1) \<Rightarrow> (Inl e, w1)
         | (Inr body1, w1) \<Rightarrow>
             if generators env then
               (case invoke YieldExpressionTransformer
                       (yieldExpressionTransformAny env) body1 w1 of
                  (Inl e, w2) \<Rightarrow> (Inl e, w2)
                | (Inr body2, w2) \<Rightarrow>
                    invoke GeneratorTransformer (transformGeneratorBody env) body2 w2)
             else (Inr body1, w1))) \<and>
     (truthy isGen \<longrightarrow>
      (drop (length (calls w))
         (calls (snd (transformBody_' env (Inr body0, w) tree isGen))) = [] \<longleftrightarrow>
       \<not> generators env \<and>
       \<not> (hasForIn (newYieldFinder env tree) \<and> deferredFunctions env))) \<and>
     (truthy isGen \<and> hasForIn (newYieldFinder env tree) \<and>
        (generators env \<or> deferredFunctions env) \<longrightarrow>
      take 1 (drop (length (calls w))
         (calls (snd (transformBody_' env (Inr body0, w) tree isGen)))) =
        [ForInTransformPass])"
  by (auto simp: transformBody_'_def lowerBody_def invoke_def Let_def
      split: prod.splits sum.splits)

theorem transformBody_no_suspend_witness:
  "hasYield (newYieldFinder (exampleEnv True True) forInBody) = False \<and>
   hasAwait (newYieldFinder (exampleEnv True True) forInBody) = False \<and>
   transformBody_' (exampleEnv True True) (Inr forInBody, w0) forInBody (Some False) =
     (Inr forInBody, w0) \<and>
   transformBody_' (exampleEnv True True) (Inr forInBody, w0) forInBody None =
     (Inr forInBody, w0) \<and>
   transformBody_' (exampleEnv False False) (Inr emptyBody, w0) emptyBody (Some True) =
     (Inr emptyBody, w0) \<and>
   transformBody_' (exampleEnv True False) (Inr emptyBody, w0) emptyBody (Some True) =
     (Inr (OtherTree 100 None ''generatorStateMachine'' [emptyBody]),
      w0\<lparr>nextRef := 101, calls := [YieldExpressionTransformer, GeneratorTransformer]\<rparr>) \<and>
   hasForIn (newYieldFinder (exampleEnv True False) forInBody) = True \<and>
   transformBody_' (exampleEnv True False) (Inr forInBody, w0) forInBody (Some True) =
     (Inr (OtherTree 101 None ''generatorStateMachine''
             [OtherTree 100 None ''forInLowered'' [forInBody]]),
      w0\<lparr>nextRef := 102,
         calls := [ForInTransformPass, YieldExpressionTransformer, GeneratorTransformer]\<rparr>) \<and>
   transformBody_' (exampleEnv False True) (Inr forInBody, w0) forInBody (Some True) =
     (Inr (OtherTree 100 None ''forInLowered'' [forInBody]),
      w0\<lparr>nextRef := 101, calls := [ForInTransformPass]\<rparr>) \<and>
   transformBody_' (exampleEnv False False) (Inr forInBody, w0) forInBody (Some True) =
     (Inr forInBody, w0)"
  using transformBody_no_suspend
      [where env = "exampleEnv True False" and tree = forInBody and isGen = "Some True"
        and ?body0.0 = forInBody and w = w0]
    transformBody_no_suspend
      [where env = "exampleEnv False True" and tree = forInBody and isGen = "Some True"
        and ?body0.0 = forInBody and w = w0]
    transformBody_no_suspend
      [where env = "exampleEnv False False" and tree = forInBody and isGen = "Some True"
        and inner = "(Inr forInBody, w0)"]
    transformBody_no_suspend
      [where env = "exampleEnv True True" and tree = forInBody and isGen = "Some False"
        and inner = "(Inr forInBody, w0)"]
    transformBody_no_suspend
      [where env = "exampleEnv True True" and tree = forInBody and isGen = None
        and inner = "(Inr forInBody, w0)"]
    transformBody_no_suspend
      [where env = "exampleEnv False False" and tree = emptyBody and isGen = "Some True"
        and inner = "(Inr emptyBody, w0)"]
    transformBody_no_suspend
      [where env = "exampleEnv True False" and tree = emptyBody and isGen = "Some True"
        and ?body0.0 = emptyBody and w = w0]
  by (simp add: driver_example_defs w0_def invoke_def ok_def newNode_def nodes.simps)

text \<open>
  Claim C3, as the spec states it: the for-in lowering pass is applied if and only if the
  analyzer reports a for-in loop and generator or deferred-function support is enabled.
  The body of \<^verbatim>\<open>function h() { for (k in o) {} }\<close> holds a for-in loop and both supports
  are enabled, yet \<^verbatim>\<open>transformBody_\<close> returns before the for-in test, since the node is no
  generator and the body has no suspend point: no sub-pass is called.
\<close>

theorem forInTransformPass_gate_counterexample:
  "hasForIn (newYieldFinder (exampleEnv True True) forInBody) = True \<and>
   generators (exampleEnv True True) = True \<and>
   deferredFunctions (exampleEnv True True) = True \<and>
   transformBody_' (exampleEnv True True) (Inr forInBody, w0) forInBody (Some False) =
     (Inr forInBody, w0) \<and>
   ForInTransformPass \<notin> set (drop (length (calls w0))
       (calls (snd (transformBody_' (exampleEnv True True) (Inr forInBody, w0) forInBody
                      (Some False)))))"
  by (simp add: driver_example_defs w0_def transformBody_'_def nodes.simps)

text \<open>
  Claim C3, amended. Among the sub-passes \<^verbatim>\<open>transformBody_\<close> calls on a body after the
  inherited traversal, the for-in lowering pass occurs if and only if the body needs work
  (the node is declared as a generator, or deferred-function support is enabled and the
  analyzer reports a direct suspend or an await-suspend), the analyzer reports a for-in
  loop, and generator or deferred-function support is enabled.
\<close>

theorem forInTransformPass_gate:
  "ForInTransformPass \<in> set (drop (length (calls w))
       (calls (snd (transformBody_' env (Inr body0, w) tree isGen)))) \<longleftrightarrow>
   (truthy isGen \<or>
      deferredFunctions env \<and>
        (hasYield (newYieldFinder env tree) \<or> hasAwait (newYieldFinder env tree))) \<and>
   hasForIn (newYieldFinder env tree) \<and> (generators env \<or> deferredFunctions env)"
  by (auto simp: transformBody_'_def lowerBody_def invoke_def Let_def
      split: prod.splits sum.splits if_splits)

theorem forInTransformPass_gate_witness:
  "ForInTransformPass \<in> set (drop (length (calls w0))
       (calls (snd (transformBody_' (exampleEnv True False) (Inr forInBody, w0) forInBody
                      (Some True))))) \<and>
   truthy (Some True) \<and>
   hasForIn (newYieldFinder (exampleEnv True False) forInBody) \<and>
   generators (exampleEnv True False) \<and>
   ForInTransformPass \<notin> set (drop (length (calls w0))
       (calls (snd (transformBody_' (exampleEnv True False) (Inr forInBody, w0) forInBody
                      (Some False)))))"
  using forInTransformPass_gate
      [where env = "exampleEnv True False" and tree = forInBody and isGen = "Some True"
        and ?body0.0 = forInBody and w = w0]
    forInTransformPass_gate
      [where env = "exampleEnv True False" and tree = forInBody and isGen = "Some False"
        and ?body0.0 = forInBody and w = w0]
  by (simp add: driver_example_defs w0_def nodes.simps)

text \<open>
  Claim C4, as the spec states it: the node built for a replaced body equals the input in
  every field but the body and the generator flag. The code passes \<^verbatim>\<open>null\<close> as the
  location of the new node: the generator expression of the example has a location, the
  node returned for it has none.
\<close>

theorem transformFunction_location_counterexample:
  "location gen_expr = Some (SourceRange 0 28) \<and>
   transformSuper (exampleEnv True False) yieldBody w0 = (Inr yieldBody, w0) \<and>
   transformFunctionExpression (exampleEnv True False) (Inr yieldBody, w0) gen_expr =
     (Inr (FunctionExpression 101 None None False [''a''] (Some ''T'') [''Ann'']
             (OtherTree 100 None ''generatorStateMachine'' [yieldBody])),
      w0\<lparr>nextRef := 102, calls := [YieldExpressionTransformer, GeneratorTransformer]\<rparr>)"
  by (simp add: driver_example_defs example_defs transformAny.simps transformSuper.simps
      transformFunctionExpression_def transformFunction_'_def transformBody_'_def
      lowerBody_def invoke_def ok_def newNode_def nodes.simps)

text \<open>
  Claim C4, amended. For a function declaration or function expression whose body was
  replaced (the body returned by \<^verbatim>\<open>transformBody_\<close> is not the identical object), the
  driver returns a new node of the same kind that equals the input in every field except
  three: the body is the replacement, the generator flag is false (also when the input's
  flag was true), and the location is \<^verbatim>\<open>null\<close>; name, parameter list, type annotation
  and annotations are those of the input.
\<close>

theorem transformFunction_replaced:
  "transformBody_' env inner fb (Some g) = (Inr body1, w1) \<and> ref body1 \<noteq> ref fb \<longrightarrow>
     transformFunctionDeclaration env inner (FunctionDeclaration r l n g ps t a fb) =
       (Inr (FunctionDeclaration (nextRef w1) None n False ps t a body1),
        w1\<lparr>nextRef := Suc (nextRef w1)\<rparr>) \<and>
     transformFunctionExpression env inner (FunctionExpression r l n g ps t a fb) =
       (Inr (FunctionExpression (nextRef w1) None n False ps t a body1),
        w1\<lparr>nextRef := Suc (nextRef w1)\<rparr>)"
  by (simp add: transformFunctionDeclaration_def transformFunctionExpression_def
      transformFunction_'_def ok_def newNode_def)

theorem transformFunction_replaced_witness:
  "transformBody_' (exampleEnv True False) (Inr yieldBody, w0) yieldBody (Some True) =
     (Inr (OtherTree 100 None ''generatorStateMachine'' [yieldBody]),
      w0\<lparr>nextRef := 101, calls := [YieldExpressionTransformer, GeneratorTransformer]\<rparr>) \<and>
   ref (OtherTree 100 None ''generatorStateMachine'' [yieldBody]) \<noteq> ref yieldBody \<and>
   transformFunctionExpression (exampleEnv True False) (Inr yieldBody, w0) gen_expr =
     (Inr (FunctionExpression 101 None None False [''a''] (Some ''T'') [''Ann'']
             (OtherTree 100 None ''generatorStateMachine'' [yieldBody])),
      w0\<lparr>nextRef := 102, calls := [YieldExpressionTransformer, GeneratorTransformer]\<rparr>)"
proof -
  have b: "transformBody_' (exampleEnv True False) (Inr yieldBody, w0) yieldBody (Some True) =
     (Inr (OtherTree 100 None ''generatorStateMachine'' [yieldBody]),
      w0\<lparr>nextRef := 101, calls := [YieldExpressionTransformer, GeneratorTransformer]\<rparr>)"
    by (simp add: driver_example_defs example_defs transformBody_'_def lowerBody_def
        invoke_def ok_def newNode_def nodes.simps)
  have r: "ref (OtherTree 100 None ''generatorStateMachine'' [yieldBody]) \<noteq> ref yieldBody"
    by (simp add: yieldBody_def)
  from b r transformFunction_replaced
      [where env = "exampleEnv True False" and inner = "(Inr yieldBody, w0)" and fb = yieldBody
        and g = True and ?body1.0 = "OtherTree 100 None ''generatorStateMachine'' [yieldBody]"
        and ?w1.0 = "w0\<lparr>nextRef := 101,
              calls := [YieldExpressionTransformer, GeneratorTransformer]\<rparr>"
        and r = 40 and l = "Some (SourceRange 0 28)" and n = None and ps = "[''a'']"
        and t = "Some ''T''" and a = "[''Ann'']"]
  show ?thesis
    by (simp add: gen_expr_def w0_def)
qed

subsection \<open>The whole pass on trees without generators\<close>

text \<open>
  The traversal hands \<open>withChildren\<close> as many children as the node has. With
  deferred-function support disabled, the pass returns every tree as the identical node and
  leaves the state alone, when generator support is disabled too or the tree holds no
  generator function.
\<close>

lemma transformList_length:
  "transformList env ts w = (Inr ts', w') \<Longrightarrow> length ts' = length ts"
  by (induction ts arbitrary: w ts') (auto split: prod.splits sum.splits)

lemma containsGenerator_iff:
  "containsGenerator t \<longleftrightarrow> isGeneratorFunction t \<or> (\<exists>c\<in>set (children t). containsGenerator c)"
  by (auto simp: containsGenerator_def nodes.simps [of t] list_ex_iff)

lemma transformBody_plain:
  "\<not> deferredFunctions env \<Longrightarrow> \<not> truthy isGen \<or> \<not> generators env \<Longrightarrow>
   transformBody_' env (Inr body0, w) tree isGen = (Inr body0, w)"
  by (auto simp: transformBody_'_def lowerBody_def Let_def)

lemma traversal_identity:
  "\<not> deferredFunctions env \<longrightarrow> \<not> generators env \<or> \<not> containsGenerator tree \<longrightarrow>
     transformAny env tree w = (Inr tree, w)"
  "\<not> deferredFunctions env \<longrightarrow> \<not> generators env \<or> (\<forall>t\<in>set ts. \<not> containsGenerator t) \<longrightarrow>
     transformList env ts w = (Inr ts, w)"
  "\<not> deferredFunctions env \<longrightarrow>
     \<not> generators env \<or> (\<forall>c\<in>set (children tree). \<not> containsGenerator c) \<longrightarrow>
     transformSuper env tree w = (Inr tree, w)"
proof (induction env tree w and env ts w and env tree w
    rule: transformAny_transformList_transformSuper.induct)
  case (1 env tree w)
  show ?case
  proof (intro impI)
    assume d: "\<not> deferredFunctions env" and g: "\<not> generators env \<or> \<not> containsGenerator tree"
    from g have ch: "\<not> generators env \<or> (\<forall>c\<in>set (children tree). \<not> containsGenerator c)"
      using containsGenerator_iff [of tree] by blast
    from g have self: "\<not> generators env \<or> \<not> isGeneratorFunction tree"
      using containsGenerator_iff [of tree] by blast
    show "transformAny env tree w = (Inr tree, w)"
    proof (cases tree)
      case (FunctionDeclaration r l n gf ps t a fb)
      with ch have "\<not> generators env \<or> (\<forall>c\<in>set (children fb). \<not> containsGenerator c)"
        using containsGenerator_iff [of fb] by auto
      with "1.IH"(14) [OF FunctionDeclaration] d have "transformSuper env fb w = (Inr fb, w)"
        by blast
      with FunctionDeclaration d self show ?thesis
        by (auto simp: transformAny.simps transformFunctionDeclaration_def transformFunction_'_def
            transformBody_plain)
    next
      case (FunctionExpression r l n gf ps t a fb)
      with ch have "\<not> generators env \<or> (\<forall>c\<in>set (children fb). \<not> containsGenerator c)"
        using containsGenerator_iff [of fb] by auto
      with "1.IH"(15) [OF FunctionExpression] d have "transformSuper env fb w = (Inr fb, w)"
        by blast
      with FunctionExpression d self show ?thesis
        by (auto simp: transformAny.simps transformFunctionExpression_def transformFunction_'_def
            transformBody_plain)
    next
      case (GetAccessor r l st n t a b)
      with ch have "\<not> generators env \<or> (\<forall>c\<in>set (children b). \<not> containsGenerator c)"
        using containsGenerator_iff [of b] by auto
      with "1.IH"(16) [OF GetAccessor] d have "transformSuper env b w = (Inr b, w)"
        by blast
      with GetAccessor d show ?thesis
        by (auto simp: transformAny.simps transformGetAccessor_def transformBody_plain)
    next
      case (SetAccessor r l st n p a b)
      with ch have "\<not> generators env \<or> (\<forall>c\<in>set (children b). \<not> containsGenerator c)"
        using containsGenerator_iff [of b] by auto
      with "1.IH"(17) [OF SetAccessor] d have "transformSuper env b w = (Inr b, w)"
        by blast
      with SetAccessor d show ?thesis
        by (auto simp: transformAny.simps transformSetAccessor_def transformBody_plain)
    qed (use "1.IH" d ch in \<open>simp_all add: transformAny.simps\<close>)
  qed
next
  case (2 env w)
  show ?case by simp
next
  case (3 env t ts w)
  show ?case
  proof (intro impI)
    assume d: "\<not> deferredFunctions env"
      and g: "\<not> generators env \<or> (\<forall>t\<in>set (t # ts). \<not> containsGenerator t)"
    from "3.IH"(1) d g have a: "transformAny env t w = (Inr t, w)" by auto
    from "3.IH"(2) [OF a [symmetric] refl] d g have "transformList env ts w = (Inr ts, w)"
      by auto
    with a show "transformList env (t # ts) w = (Inr (t # ts), w)" by simp
  qed
next
  case (4 env tree w)
  then show ?case by (simp add: transformSuper.simps)
qed

text \<open>
  Claim C8, as the spec states it: a function that is not a generator, has no suspend
  expression in its body (nested functions included), with deferred-function support
  disabled, comes back as the identical node. \<^verbatim>\<open>function f() { function* g() {} }\<close> holds
  no suspend expression, but the nested generator is lowered all the same (generator
  support enabled), so the body of \<^verbatim>\<open>f\<close> changes and \<^verbatim>\<open>f\<close> is rebuilt at a new address.
\<close>

theorem transformAny_nested_generator_counterexample:
  "isGenerator fun_f = False \<and> containsYield fun_f = False \<and>
   deferredFunctions (exampleEnv True False) = False \<and>
   transformAny (exampleEnv True False) fun_f w0 =
     (Inr (FunctionDeclaration 103 None (Some ''f'') False [] None []
             (FunctionBody 102 None
                [FunctionDeclaration 101 None (Some ''g'') False [] None []
                   (OtherTree 100 None ''generatorStateMachine'' [emptyBody])])),
      w0\<lparr>nextRef := 104, calls := [YieldExpressionTransformer, GeneratorTransformer]\<rparr>) \<and>
   transformAny (exampleEnv True False) fun_f w0 \<noteq> (Inr fun_f, w0) \<and>
   ref fun_f = 22"
  by (simp add: driver_example_defs w0_def containsYield_def transformAny.simps
      transformSuper.simps transformFunctionDeclaration_def transformFunction_'_def
      transformBody_'_def lowerBody_def invoke_def ok_def newNode_def nodes.simps
      withChildren_def)

text \<open>
  Claim C8, amended. For every function declaration or expression that is not a generator,
  with deferred-function support disabled, and whose body holds no generator function at
  any nesting depth (or with generator support disabled as well), the driver's transform
  returns the exact original node, and the state is unchanged; whether the body holds
  suspend expressions plays no part.
\<close>

theorem transformAny_function_unchanged:
  "\<not> deferredFunctions env \<and> \<not> g \<and> (\<not> generators env \<or> \<not> containsGenerator fb) \<longrightarrow>
     transformAny env (FunctionDeclaration r l n g ps t a fb) w =
       (Inr (FunctionDeclaration r l n g ps t a fb), w) \<and>
     transformAny env (FunctionExpression r l n g ps t a fb) w =
       (Inr (FunctionExpression r l n g ps t a fb), w)"
proof (intro impI conjI)
  assume h: "\<not> deferredFunctions env \<and> \<not> g \<and> (\<not> generators env \<or> \<not> containsGenerator fb)"
  then have "\<not> generators env \<or> \<not> containsGenerator (FunctionDeclaration r l n g ps t a fb)"
    using containsGenerator_iff [of "FunctionDeclaration r l n g ps t a fb"] by auto
  with h show "transformAny env (FunctionDeclaration r l n g ps t a fb) w =
       (Inr (FunctionDeclaration r l n g ps t a fb), w)"
    using traversal_identity(1) by blast
  from h have "\<not> generators env \<or> \<not> containsGenerator (FunctionExpression r l n g ps t a fb)"
    using containsGenerator_iff [of "FunctionExpression r l n g ps t a fb"] by auto
  with h show "transformAny env (FunctionExpression r l n g ps t a fb) w =
       (Inr (FunctionExpression r l n g ps t a fb), w)"
    using traversal_identity(1) by blast
qed

theorem transformAny_function_unchanged_witness:
  "deferredFunctions (exampleEnv True False) = False \<and> containsGenerator forInBody = False \<and>
   transformAny (exampleEnv True False) fun_h w0 = (Inr fun_h, w0) \<and>
   containsGenerator yieldBody = False \<and> containsYield yieldBody = True \<and>
   transformAny (exampleEnv True False) fun_k w0 = (Inr fun_k, w0)"
  using transformAny_function_unchanged
      [where env = "exampleEnv True False" and g = False and fb = forInBody and r = 29
        and l = "Some (SourceRange 0 40)" and n = "Some ''h''" and ps = "[]" and t = None
        and a = "[]" and w = w0]
    transformAny_function_unchanged
      [where env = "exampleEnv True False" and g = False and fb = yieldBody and r = 42
        and l = None and n = "Some ''k''" and ps = "[]" and t = None and a = "[]" and w = w0]
  by (simp add: driver_example_defs example_defs containsGenerator_def containsYield_def
      nodes.simps)

text \<open>
  Claim C10, as stated: with deferred-function support disabled, an accessor comes back
  identical whatever its body holds. The getter \<^verbatim>\<open>get x() { function* g() {} }\<close> holds
  a generator, which the inherited traversal lowers: the body changes and the getter is
  rebuilt.
\<close>

theorem transformGetAccessor_nested_generator_counterexample:
  "deferredFunctions (exampleEnv True False) = False \<and>
   transformAny (exampleEnv True False) get_x w0 =
     (Inr (GetAccessor 103 (Some (SourceRange 0 50)) False (Some ''x'') None []
             (FunctionBody 102 None
                [FunctionDeclaration 101 None (Some ''g'') False [] None []
                   (OtherTree 100 None ''generatorStateMachine'' [emptyBody])])),
      w0\<lparr>nextRef := 104, calls := [YieldExpressionTransformer, GeneratorTransformer]\<rparr>) \<and>
   transformAny (exampleEnv True False) get_x w0 \<noteq> (Inr get_x, w0) \<and>
   ref get_x = 30 \<and> body get_x = FunctionBody 31 None [gen_g]"
  by (simp add: driver_example_defs w0_def transformAny.simps
      transformSuper.simps transformFunctionDeclaration_def transformFunction_'_def
      transformGetAccessor_def
      transformBody_'_def lowerBody_def invoke_def ok_def newNode_def nodes.simps
      withChildren_def)

text \<open>
  Claim C10, amended. For a get-accessor or set-accessor the driver calls
  \<^verbatim>\<open>transformBody_\<close> with no generator flag. With deferred-function support disabled the
  body comes back exactly as the inherited traversal left it (no analyzer, for-in lowering,
  rewriter or builder at the accessor's level), and the accessor is returned as the
  identical node when the body holds no generator function at any depth (or generator
  support is disabled too). When the body was replaced, the accessor is rebuilt with the
  location, static flag, name, type annotation (getter) or parameter (setter) and
  annotations of the input.
\<close>

theorem transformAccessor:
  "(\<not> deferredFunctions env \<longrightarrow> transformBody_' env inner b None = inner) \<and>
   (\<not> deferredFunctions env \<and> (\<not> generators env \<or> \<not> containsGenerator b) \<longrightarrow>
      transformAny env (GetAccessor r l st n t a b) w = (Inr (GetAccessor r l st n t a b), w) \<and>
      transformAny env (SetAccessor r l st n p a b) w = (Inr (SetAccessor r l st n p a b), w)) \<and>
   (transformBody_' env inner b None = (Inr body1, w1) \<and> ref body1 \<noteq> ref b \<longrightarrow>
      transformGetAccessor env inner (GetAccessor r l st n t a b) =
        (Inr (GetAccessor (nextRef w1) l st n t a body1), w1\<lparr>nextRef := Suc (nextRef w1)\<rparr>) \<and>
      transformSetAccessor env inner (SetAccessor r l st n p a b) =
        (Inr (SetAccessor (nextRef w1) l st n p a body1), w1\<lparr>nextRef := Suc (nextRef w1)\<rparr>))"
proof (intro conjI impI)
  assume "\<not> deferredFunctions env"
  then show "transformBody_' env inner b None = inner"
    by (auto simp: transformBody_'_def split: prod.splits sum.splits)
next
  assume h: "\<not> deferredFunctions env \<and> (\<not> generators env \<or> \<not> containsGenerator b)"
  then have "\<not> generators env \<or> \<not> containsGenerator (GetAccessor r l st n t a b)"
    using containsGenerator_iff [of "GetAccessor r l st n t a b"] by auto
  with h show "transformAny env (GetAccessor r l st n t a b) w =
      (Inr (GetAccessor r l st n t a b), w)"
    using traversal_identity(1) by blast
  from h have "\<not> generators env \<or> \<not> containsGenerator (SetAccessor r l st n p a b)"
    using containsGenerator_iff [of "SetAccessor r l st n p a b"] by auto
  with h show "transformAny env (SetAccessor r l st n p a b) w =
      (Inr (SetAccessor r l st n p a b), w)"
    using traversal_identity(1) by blast
next
  assume h: "transformBody_' env inner b None = (Inr body1, w1) \<and> ref body1 \<noteq> ref b"
  then show "transformGetAccessor env inner (GetAccessor r l st n t a b) =
        (Inr (GetAccessor (nextRef w1) l st n t a body1), w1\<lparr>nextRef := Suc (nextRef w1)\<rparr>)"
    by (simp add: transformGetAccessor_def ok_def newNode_def)
  from h show "transformSetAccessor env inner (SetAccessor r l st n p a b) =
        (Inr (SetAccessor (nextRef w1) l st n p a body1), w1\<lparr>nextRef := Suc (nextRef w1)\<rparr>)"
    by (simp add: transformSetAccessor_def ok_def newNode_def)
qed

theorem transformAccessor_witness:
  "deferredFunctions (exampleEnv True False) = False \<and>
   containsGenerator awaitBody = False \<and>
   transformBody_' (exampleEnv True False) (Inr awaitBody, w0) awaitBody None =
     (Inr awaitBody, w0) \<and>
   transformAny (exampleEnv True False) set_x w0 = (Inr set_x, w0) \<and>
   transformBody_' (exampleEnv True True) (Inr awaitBody, w0) awaitBody None =
     (Inr (OtherTree 100 None ''asyncStateMachine'' [awaitBody]),
      w0\<lparr>nextRef := 101, calls := [AsyncTransformer]\<rparr>) \<and>
   ref (OtherTree 100 None ''asyncStateMachine'' [awaitBody]) \<noteq> ref awaitBody \<and>
   transformSetAccessor (exampleEnv True True) (Inr awaitBody, w0) set_x =
     (Inr (SetAccessor 101 (Some (SourceRange 0 60)) True (Some ''x'') ''v'' [''Ann'']
             (OtherTree 100 None ''asyncStateMachine'' [awaitBody])),
      w0\<lparr>nextRef := 102, calls := [AsyncTransformer]\<rparr>)"
proof -
  have b: "transformBody_' (exampleEnv True True) (Inr awaitBody, w0) awaitBody None =
     (Inr (OtherTree 100 None ''asyncStateMachine'' [awaitBody]),
      w0\<lparr>nextRef := 101, calls := [AsyncTransformer]\<rparr>)"
    by (simp add: driver_example_defs w0_def transformBody_'_def lowerBody_def
        invoke_def ok_def newNode_def nodes.simps)
  have r: "ref (OtherTree 100 None ''asyncStateMachine'' [awaitBody]) \<noteq> ref awaitBody"
    by (simp add: awaitBody_def)
  have g: "containsGenerator awaitBody = False"
    by (simp add: containsGenerator_def awaitBody_def nodes.simps)
  have d: "deferredFunctions (exampleEnv True False) = False"
    by (simp add: exampleEnv_def)
  from b r g d
    transformAccessor
      [where env = "exampleEnv True False" and inner = "(Inr awaitBody, w0)" and b = awaitBody
        and r = 35 and l = "Some (SourceRange 0 60)" and st = True and n = "Some ''x''"
        and p = "''v''" and a = "[''Ann'']" and w = w0]
    transformAccessor
      [where env = "exampleEnv True True" and inner = "(Inr awaitBody, w0)" and b = awaitBody
        and ?body1.0 = "OtherTree 100 None ''asyncStateMachine'' [awaitBody]"
        and ?w1.0 = "w0\<lparr>nextRef := 101, calls := [AsyncTransformer]\<rparr>"
        and r = 35 and l = "Some (SourceRange 0 60)" and st = True and n = "Some ''x''"
        and p = "''v''" and a = "[''Ann'']"]
  show ?thesis
    by (simp add: set_x_def w0_def)
qed

end
